theory Spec2Isabelle
  imports Main "HOL-Library.Sublist"
begin

section \<open>The relaying core of yui-relayer: channel handshake and strategy runner\<close>

text \<open>
  The development embeds package \<^verbatim>\<open>core\<close>: the handshake step evaluator
  \<^verbatim>\<open>createChannelStep\<close>, its driver \<^verbatim>\<open>CreateChannel\<close> and the strategy runner
  \<^verbatim>\<open>RunStrategy\<close>. The channel file exists in two versions. The one that logs through
  \<^verbatim>\<open>log\<close>/\<^verbatim>\<open>slog\<close> and has \<^verbatim>\<open>checkChannelFinality\<close> carries the suffix \<open>0\<close> here
  (\<^verbatim>\<open>src/unnamed/part_000\<close>); the one that logs through \<^verbatim>\<open>zap\<close> carries the suffix \<open>1\<close>
  (\<^verbatim>\<open>src/unnamed/part_001\<close>). What the two versions share word for word is defined once.
\<close>

subsection \<open>Data\<close>

text \<open>The channel states and orderings of ibc-go's \<^verbatim>\<open>chantypes\<close>.\<close>

datatype State = UNINITIALIZED | INIT | TRYOPEN | OPEN | CLOSED

datatype Order = NONE | UNORDERED | ORDERED

type_synonym Header = nat

type_synonym Address = string

text \<open>An error value produced by a collaborator (chain adapter, header synchronizer).\<close>

type_synonym ext_error = string

record PathEnd =
  ClientID :: string
  ConnectionID :: string
  ChannelID :: string
  PortID :: string

record Channel =
  State :: State
  Ordering :: Order
  Version :: string

record QueryChannelResponse =
  Channel :: Channel
  Proof :: "nat list"
  ProofHeight :: nat

text \<open>
  Protocol messages. A message records the arguments its constructor was given, so that
  two messages are equal exactly when they were built from the same data.
\<close>

datatype Msg =
    MsgUpdateClient PathEnd Header Address
  | MsgChannelOpenInit PathEnd PathEnd Address
  | MsgChannelOpenTry PathEnd PathEnd QueryChannelResponse Address
  | MsgChannelOpenAck PathEnd PathEnd QueryChannelResponse Address
  | MsgChannelOpenConfirm PathEnd QueryChannelResponse Address

record RelayMsgs =
  Src :: "Msg list"
  Dst :: "Msg list"
  Last :: bool
  Succeeded :: bool

text \<open>
  A chain as the core sees it during one step: its identity, and what each call on the
  chain adapter answers. \<open>Path\<close> is a pointer in the source: \<open>None\<close> is nil.
\<close>

record ProvableChain =
  ChainID :: string
  Path :: "PathEnd option"
  GetAddress :: "ext_error + Address"
  LatestHeight :: "ext_error + nat"
  QueryChannel :: "nat \<Rightarrow> ext_error + QueryChannelResponse"
  SendMsgs :: "Msg list \<Rightarrow> bool"

text \<open>
  The header synchronizer holds the latest finalized header of each chain; the core reads
  only its height, by chain ID.
\<close>

type_synonym SyncHeaders = "string \<Rightarrow> nat"

text \<open>
  The world of one evaluation: the two chains, and the answers of the header synchronizer.
  \<open>SetupBothHeadersForUpdate w n\<close> and \<open>Updates w n\<close> are the answers to the call made in
  retry attempt \<open>n\<close> (counted from 0). \<open>rtyAtt\<close> is the number of attempts of the package's
  retry option \<^verbatim>\<open>rtyAtt\<close>, which is declared outside the files at hand.
\<close>

record world =
  srcChain :: ProvableChain
  dstChain :: ProvableChain
  rtyAtt :: nat
  NewSyncHeaders :: "ext_error + SyncHeaders"
  SetupBothHeadersForUpdate :: "nat \<Rightarrow> ext_error + (Header list \<times> Header list)"
  Updates :: "nat \<Rightarrow> ext_error + SyncHeaders"

subsection \<open>Errors and panics\<close>

datatype error =
    External ext_error
  | PathNotSet string
  | ChannelFailed string

datatype panic =
    NotImplemented State State
  | PanicErr ext_error
  | NilDereference
  | NonPositiveInterval

text \<open>A Go call returns a value, returns an error, or panics.\<close>

datatype 'a result = Return 'a | Error error | Panic panic

fun bindR :: "'a result \<Rightarrow> ('a \<Rightarrow> 'b result) \<Rightarrow> 'b result" where
  "bindR (Return x) f = f x"
| "bindR (Error e) f = Error e"
| "bindR (Panic p) f = Panic p"

subsection \<open>Collaborators of the evaluator\<close>

text \<open>
  Modelled from the spec: the message constructors of a path end (\<^verbatim>\<open>ChanInit\<close>,
  \<^verbatim>\<open>ChanTry\<close>, \<^verbatim>\<open>ChanAck\<close>, \<^verbatim>\<open>ChanConfirm\<close>, \<^verbatim>\<open>UpdateClients\<close>) are not among the
  source files. They "return protocol messages given counterparty path info and a signer
  address"; \<^verbatim>\<open>UpdateClients\<close> gives one update-client message per header, in order.
\<close>

definition ChanInit :: "PathEnd \<Rightarrow> PathEnd \<Rightarrow> Address \<Rightarrow> Msg" where
  "ChanInit pe dstPath signer = MsgChannelOpenInit pe dstPath signer"

definition ChanTry :: "PathEnd \<Rightarrow> PathEnd \<Rightarrow> QueryChannelResponse \<Rightarrow> Address \<Rightarrow> Msg" where
  "ChanTry pe dstPath dstChanState signer = MsgChannelOpenTry pe dstPath dstChanState signer"

definition ChanAck :: "PathEnd \<Rightarrow> PathEnd \<Rightarrow> QueryChannelResponse \<Rightarrow> Address \<Rightarrow> Msg" where
  "ChanAck pe dstPath dstChanState signer = MsgChannelOpenAck pe dstPath dstChanState signer"

definition ChanConfirm :: "PathEnd \<Rightarrow> QueryChannelResponse \<Rightarrow> Address \<Rightarrow> Msg" where
  "ChanConfirm pe dstChanState signer = MsgChannelOpenConfirm pe dstChanState signer"

definition UpdateClients :: "PathEnd \<Rightarrow> Header list \<Rightarrow> Address \<Rightarrow> Msg list" where
  "UpdateClients pe dstHeaders signer = map (\<lambda>h. MsgUpdateClient pe h signer) dstHeaders"

text \<open>
  Modelled from the spec: the relay message batch (\<^verbatim>\<open>NewRelayMsgs\<close>, \<^verbatim>\<open>Ready\<close>,
  \<^verbatim>\<open>Send\<close>, \<^verbatim>\<open>Success\<close>) is not among the source files. A batch is created empty; it
  "is ready iff at least one side's sequence is non-empty"; sending submits the src
  sequence to the src chain and the dst sequence to the dst chain and records whether
  the submission was accepted.
\<close>

definition NewRelayMsgs :: RelayMsgs where
  "NewRelayMsgs = \<lparr>Src = [], Dst = [], Last = False, Succeeded = False\<rparr>"

definition Ready :: "RelayMsgs \<Rightarrow> bool" where
  "Ready r = (\<not> (length (Src r) = 0 \<and> length (Dst r) = 0))"

definition Send :: "RelayMsgs \<Rightarrow> ProvableChain \<Rightarrow> ProvableChain \<Rightarrow> RelayMsgs" where
  "Send r src dst = r\<lparr>Succeeded := SendMsgs src (Src r) \<and> SendMsgs dst (Dst r)\<rparr>"

definition Success :: "RelayMsgs \<Rightarrow> bool" where
  "Success r = Succeeded r"

text \<open>
  Modelled from the spec: \<^verbatim>\<open>validatePaths\<close> is not among the source files. It is to
  "validate that both chains have a configured path" and to "fail fast if not".
\<close>

definition validatePaths :: "ProvableChain \<Rightarrow> ProvableChain \<Rightarrow> error option" where
  "validatePaths src dst =
     (case Path src of
        None \<Rightarrow> Some (PathNotSet (ChainID src))
      | Some _ \<Rightarrow>
          (case Path dst of
             None \<Rightarrow> Some (PathNotSet (ChainID dst))
           | Some _ \<Rightarrow> None))"

text \<open>
  Modelled from the spec: \<^verbatim>\<open>GetQueryContext\<close> of the header synchronizer is not among
  the source files. It "returns a height-pinned query context (a chain ID + height pair)";
  the model keeps the height.
\<close>

definition GetQueryContext :: "SyncHeaders \<Rightarrow> string \<Rightarrow> nat" where
  "GetQueryContext sh chainID = sh chainID"

text \<open>
  Modelled from the spec: \<^verbatim>\<open>QueryChannelPair\<close> is not among the source files. It
  "fetches the current on-chain channel record (state + proof height) for both chains in
  one coordinated round", each at the height of its query context, and fails when either
  query fails.
\<close>

definition QueryChannelPair ::
  "nat \<Rightarrow> nat \<Rightarrow> ProvableChain \<Rightarrow> ProvableChain
     \<Rightarrow> ext_error + (QueryChannelResponse \<times> QueryChannelResponse)" where
  "QueryChannelPair srcCtx dstCtx src dst =
     (case QueryChannel src srcCtx of
        Inl e \<Rightarrow> Inl e
      | Inr srcChan \<Rightarrow>
          (case QueryChannel dst dstCtx of
             Inl e \<Rightarrow> Inl e
           | Inr dstChan \<Rightarrow> Inr (srcChan, dstChan)))"

text \<open>
  Modelled from the spec: \<^verbatim>\<open>mustGetAddress\<close> is not among the source files. The chain
  adapter's \<^verbatim>\<open>GetAddress()\<close> answers "address|error"; the helper is called for a single
  value, the address, and has no error to return: when the address cannot be obtained
  it panics with the adapter's error.
\<close>

definition mustGetAddress :: "ProvableChain \<Rightarrow> Address result" where
  "mustGetAddress chain =
     (case GetAddress chain of
        Inl err \<Rightarrow> Panic (PanicErr err)
      | Inr addr \<Rightarrow> Return addr)"

text \<open>
  \<^verbatim>\<open>retry.Do\<close> of the library retry-go, with the two closures of \<^verbatim>\<open>createChannelStep\<close>
  in place. The first argument counts the attempts that remain, \<open>n\<close> the attempts made.
  An attempt calls \<^verbatim>\<open>SetupBothHeadersForUpdate\<close>; when it fails, the \<^verbatim>\<open>OnRetry\<close>
  callback calls \<^verbatim>\<open>Updates\<close> and panics if that fails, and the next attempt follows.
  With \<^verbatim>\<open>LastErrorOnly\<close> (\<^verbatim>\<open>rtyErr\<close>) the error returned in the end is the last one.
  With no attempt at all no error is returned and both header sequences stay nil.
\<close>

fun retry_Do ::
  "world \<Rightarrow> nat \<Rightarrow> nat \<Rightarrow> SyncHeaders \<Rightarrow> error option
     \<Rightarrow> ((Header list \<times> Header list) \<times> SyncHeaders) result" where
  "retry_Do w 0 n sh lastErr =
     (case lastErr of None \<Rightarrow> Return (([], []), sh) | Some err \<Rightarrow> Error err)"
| "retry_Do w (Suc k) n sh lastErr =
     (case SetupBothHeadersForUpdate w n of
        Inr hs \<Rightarrow> Return (hs, sh)
      | Inl err \<Rightarrow>
          (case Updates w n of
             Inl uerr \<Rightarrow> Panic (PanicErr uerr)
           | Inr sh' \<Rightarrow> retry_Do w k (Suc n) sh' (Some (External err))))"

subsection \<open>The handshake step evaluator\<close>

text \<open>
  \<^verbatim>\<open>checkChannelFinality\<close> (first version only): query both channels again at each
  chain's latest height and compare the states with those observed before.
\<close>

definition checkChannelFinality ::
  "ProvableChain \<Rightarrow> ProvableChain \<Rightarrow> Channel \<Rightarrow> Channel \<Rightarrow> ext_error + bool" where
  "checkChannelFinality src dst srcChannel dstChannel =
     (case LatestHeight src of
        Inl err \<Rightarrow> Inl err
      | Inr sh \<Rightarrow>
          (case LatestHeight dst of
             Inl err \<Rightarrow> Inl err
           | Inr dh \<Rightarrow>
               (case QueryChannelPair sh dh src dst of
                  Inl err \<Rightarrow> Inl err
                | Inr (srcChanLatest, dstChanLatest) \<Rightarrow>
                    if State srcChannel \<noteq> State (Channel srcChanLatest) then Inr False
                    else if State dstChannel \<noteq> State (Channel dstChanLatest) then Inr False
                    else Inr True)))"

text \<open>
  The part of \<^verbatim>\<open>createChannelStep\<close> that both versions share up to the query of the
  channel pair: validate the paths, build the header synchronizer, obtain the pending
  headers with retry, query both channels at the synchronizer's heights. After
  \<^verbatim>\<open>validatePaths\<close> both paths are set; they are handed on, since every later
  \<^verbatim>\<open>Path()\<close> yields them.
\<close>

definition createChannelStep_setup ::
  "world \<Rightarrow> (PathEnd \<times> PathEnd \<times> Header list \<times> Header list
              \<times> QueryChannelResponse \<times> QueryChannelResponse) result" where
  "createChannelStep_setup w =
     (let src = srcChain w; dst = dstChain w in
      case validatePaths src dst of
        Some err \<Rightarrow> Error err
      | None \<Rightarrow>
          (case (Path src, Path dst) of
             (Some srcPath, Some dstPath) \<Rightarrow>
               (case NewSyncHeaders w of
                  Inl err \<Rightarrow> Error (External err)
                | Inr sh0 \<Rightarrow>
                    bindR (retry_Do w (rtyAtt w) 0 sh0 None)
                      (\<lambda>((srcUpdateHeaders, dstUpdateHeaders), sh).
                         case QueryChannelPair (GetQueryContext sh (ChainID src))
                                (GetQueryContext sh (ChainID dst)) src dst of
                           Inl err \<Rightarrow> Error (External err)
                         | Inr (srcChan, dstChan) \<Rightarrow>
                             Return (srcPath, dstPath, srcUpdateHeaders, dstUpdateHeaders,
                                     srcChan, dstChan)))
           | _ \<Rightarrow> Panic NilDereference))"

text \<open>
  The \<^verbatim>\<open>switch\<close> of \<^verbatim>\<open>createChannelStep\<close>, the same in both versions, with the final
  \<^verbatim>\<open>return out, nil\<close>. The cases are tried in the order of the source.
\<close>

definition createChannelStep_switch ::
  "ProvableChain \<Rightarrow> ProvableChain \<Rightarrow> PathEnd \<Rightarrow> PathEnd \<Rightarrow> Header list \<Rightarrow> Header list
     \<Rightarrow> QueryChannelResponse \<Rightarrow> QueryChannelResponse \<Rightarrow> RelayMsgs \<Rightarrow> RelayMsgs result" where
  "createChannelStep_switch src dst srcPath dstPath srcUpdateHeaders dstUpdateHeaders
       srcChan dstChan out =
     (if State (Channel srcChan) = UNINITIALIZED \<and> State (Channel dstChan) = UNINITIALIZED then
        bindR (mustGetAddress src) (\<lambda>addr.
          Return (out\<lparr>Src := Src out @ [ChanInit srcPath dstPath addr]\<rparr>))
      else if State (Channel srcChan) = UNINITIALIZED \<and> State (Channel dstChan) = INIT then
        bindR (mustGetAddress src) (\<lambda>addr.
          let out1 = (if length dstUpdateHeaders > 0
                      then out\<lparr>Src := Src out @ UpdateClients srcPath dstUpdateHeaders addr\<rparr>
                      else out)
          in Return (out1\<lparr>Src := Src out1 @ [ChanTry srcPath dstPath dstChan addr]\<rparr>))
      else if State (Channel srcChan) = INIT \<and> State (Channel dstChan) = UNINITIALIZED then
        bindR (mustGetAddress dst) (\<lambda>addr.
          let out1 = (if length srcUpdateHeaders > 0
                      then out\<lparr>Dst := Dst out @ UpdateClients dstPath srcUpdateHeaders addr\<rparr>
                      else out)
          in Return (out1\<lparr>Dst := Dst out1 @ [ChanTry dstPath srcPath srcChan addr]\<rparr>))
      else if State (Channel srcChan) = TRYOPEN \<and> State (Channel dstChan) = INIT then
        bindR (mustGetAddress dst) (\<lambda>addr.
          let out1 = (if length srcUpdateHeaders > 0
                      then out\<lparr>Dst := Dst out @ UpdateClients dstPath srcUpdateHeaders addr\<rparr>
                      else out)
          in Return (out1\<lparr>Dst := Dst out1 @ [ChanAck dstPath srcPath srcChan addr]\<rparr>))
      else if State (Channel srcChan) = INIT \<and> State (Channel dstChan) = TRYOPEN then
        bindR (mustGetAddress src) (\<lambda>addr.
          let out1 = (if length dstUpdateHeaders > 0
                      then out\<lparr>Src := Src out @ UpdateClients srcPath dstUpdateHeaders addr\<rparr>
                      else out)
          in Return (out1\<lparr>Src := Src out1 @ [ChanAck srcPath dstPath dstChan addr]\<rparr>))
      else if State (Channel srcChan) = TRYOPEN \<and> State (Channel dstChan) = OPEN then
        bindR (mustGetAddress src) (\<lambda>addr.
          let out1 = (if length dstUpdateHeaders > 0
                      then out\<lparr>Src := Src out @ UpdateClients srcPath dstUpdateHeaders addr\<rparr>
                      else out);
              out2 = out1\<lparr>Src := Src out1 @ [ChanConfirm srcPath dstChan addr]\<rparr>
          in Return (out2\<lparr>Last := True\<rparr>))
      else if State (Channel srcChan) = OPEN \<and> State (Channel dstChan) = TRYOPEN then
        bindR (mustGetAddress dst) (\<lambda>addr.
          let out1 = (if length srcUpdateHeaders > 0
                      then out\<lparr>Dst := Dst out @ UpdateClients dstPath srcUpdateHeaders addr\<rparr>
                      else out);
              out2 = out1\<lparr>Dst := Dst out1 @ [ChanConfirm dstPath srcChan addr]\<rparr>
          in Return (out2\<lparr>Last := True\<rparr>))
      else Panic (NotImplemented (State (Channel srcChan)) (State (Channel dstChan))))"

text \<open>\<^verbatim>\<open>createChannelStep\<close>, first version: with the finality check before the switch.\<close>

definition createChannelStep0 :: "world \<Rightarrow> Order \<Rightarrow> RelayMsgs result" where
  "createChannelStep0 w ordering' =
     (let out = NewRelayMsgs in
      bindR (createChannelStep_setup w)
        (\<lambda>(srcPath, dstPath, srcUpdateHeaders, dstUpdateHeaders, srcChan, dstChan).
           case checkChannelFinality (srcChain w) (dstChain w) (Channel srcChan) (Channel dstChan) of
             Inl err \<Rightarrow> Error (External err)
           | Inr finalized \<Rightarrow>
               if \<not> finalized then Return out
               else createChannelStep_switch (srcChain w) (dstChain w) srcPath dstPath
                      srcUpdateHeaders dstUpdateHeaders srcChan dstChan out))"

text \<open>\<^verbatim>\<open>createChannelStep\<close>, second version: the switch follows the query at once.\<close>

definition createChannelStep1 :: "world \<Rightarrow> Order \<Rightarrow> RelayMsgs result" where
  "createChannelStep1 w ordering' =
     (let out = NewRelayMsgs in
      bindR (createChannelStep_setup w)
        (\<lambda>(srcPath, dstPath, srcUpdateHeaders, dstUpdateHeaders, srcChan, dstChan).
           createChannelStep_switch (srcChain w) (dstChain w) srcPath dstPath
             srcUpdateHeaders dstUpdateHeaders srcChan dstChan out))"

subsection \<open>The handshake driver\<close>

text \<open>
  What the driver does besides returning: it submits batches and it sleeps. \<open>Sent r\<close>
  records a call of \<^verbatim>\<open>Send\<close>, with the batch as the call left it; \<open>Slept\<close> records the
  cooldown of five seconds.
\<close>

datatype event = Sent RelayMsgs | Slept

record driver =
  failures :: nat
  events :: "event list"

text \<open>A call of \<^verbatim>\<open>CreateChannel\<close> ends by returning nil, by returning an error or in a panic.\<close>

datatype outcome = Returns "error option" | Panics panic

text \<open>
  The terminal error of the first version:
  \<^verbatim>\<open>fmt.Errorf("! Channel failed: [%s]chan{%s}port{%s} -> [%s]chan{%s}port{%s}",
      src.ChainID(), src.Path().ChannelID, src.Path().PortID,
      dst.ChainID(), dst.Path().ChannelID, dst.Path().PortID)\<close>.
  Reading a field of a nil path panics.
\<close>

definition channelFailed0 :: "ProvableChain \<Rightarrow> ProvableChain \<Rightarrow> outcome" where
  "channelFailed0 src dst =
     (case (Path src, Path dst) of
        (Some sp, Some dp) \<Rightarrow>
          Returns (Some (ChannelFailed
            (''! Channel failed: ['' @ ChainID src @ '']chan{'' @ ChannelID sp
               @ ''}port{'' @ PortID sp @ ''} -> ['' @ ChainID dst @ '']chan{'' @ ChannelID dp
               @ ''}port{'' @ PortID dp @ ''}'')))
      | _ \<Rightarrow> Panics NilDereference)"

text \<open>
  The terminal error of the second version: the same format, filled with
  \<^verbatim>\<open>src.ChainID(), src.Path().ClientID, src.Path().ChannelID,
      dst.ChainID(), dst.Path().ClientID, dst.Path().ChannelID\<close>.
\<close>

definition channelFailed1 :: "ProvableChain \<Rightarrow> ProvableChain \<Rightarrow> outcome" where
  "channelFailed1 src dst =
     (case (Path src, Path dst) of
        (Some sp, Some dp) \<Rightarrow>
          Returns (Some (ChannelFailed
            (''! Channel failed: ['' @ ChainID src @ '']chan{'' @ ClientID sp
               @ ''}port{'' @ ChannelID sp @ ''} -> ['' @ ChainID dst @ '']chan{'' @ ClientID dp
               @ ''}port{'' @ ChannelID dp @ ''}'')))
      | _ \<Rightarrow> Panics NilDereference)"

text \<open>
  The loop of \<^verbatim>\<open>CreateChannel\<close>, first version. It has no bound of its own, so the
  model takes fuel: the number of iterations it may still run. \<open>env t\<close> is the world that
  iteration \<open>t\<close> sees. The result is the outcome, or \<open>None\<close> while the loop has not ended
  when the fuel is used up, together with the driver's state at that point.
\<close>

fun CreateChannel0_loop ::
  "nat \<Rightarrow> (nat \<Rightarrow> world) \<Rightarrow> Order \<Rightarrow> nat \<Rightarrow> driver \<Rightarrow> outcome option \<times> driver" where
  "CreateChannel0_loop 0 env order' t st = (None, st)"
| "CreateChannel0_loop (Suc k) env order' t st =
     (let src = srcChain (env t); dst = dstChain (env t) in
      case createChannelStep0 (env t) order' of
        Panic p \<Rightarrow> (Some (Panics p), st)
      | Error err \<Rightarrow> (Some (Returns (Some err)), st)
      | Return chanSteps0 \<Rightarrow>
          if \<not> Ready chanSteps0 then CreateChannel0_loop k env order' (Suc t) st
          else
            let chanSteps = Send chanSteps0 src dst;
                st1 = st\<lparr>events := events st @ [Sent chanSteps]\<rparr>
            in
              if Success chanSteps \<and> Last chanSteps then (Some (Returns None), st1)
              else if Success chanSteps then
                CreateChannel0_loop k env order' (Suc t) (st1\<lparr>failures := 0\<rparr>)
              else
                let st2 = st1\<lparr>failures := failures st1 + 1, events := events st1 @ [Slept]\<rparr>
                in if failures st2 > 2 then (Some (channelFailed0 src dst), st2)
                   else CreateChannel0_loop k env order' (Suc t) st2)"


text \<open>
  The loop of \<^verbatim>\<open>CreateChannel\<close>, second version. It differs from the first in three
  places: reporting an evaluator error reads both paths, a batch that is not ready
  leaves the loop (\<^verbatim>\<open>break\<close>, then \<^verbatim>\<open>return nil\<close>), and the terminal error is filled
  with other fields.
\<close>

fun CreateChannel1_loop ::
  "nat \<Rightarrow> (nat \<Rightarrow> world) \<Rightarrow> Order \<Rightarrow> nat \<Rightarrow> driver \<Rightarrow> outcome option \<times> driver" where
  "CreateChannel1_loop 0 env order' t st = (None, st)"
| "CreateChannel1_loop (Suc k) env order' t st =
     (let src = srcChain (env t); dst = dstChain (env t) in
      case createChannelStep1 (env t) order' of
        Panic p \<Rightarrow> (Some (Panics p), st)
      | Error err \<Rightarrow>
          (case (Path src, Path dst) of
             (Some _, Some _) \<Rightarrow> (Some (Returns (Some err)), st)
           | _ \<Rightarrow> (Some (Panics NilDereference), st))
      | Return chanSteps0 \<Rightarrow>
          if \<not> Ready chanSteps0 then (Some (Returns None), st)
          else
            let chanSteps = Send chanSteps0 src dst;
                st1 = st\<lparr>events := events st @ [Sent chanSteps]\<rparr>
            in
              if Success chanSteps \<and> Last chanSteps then (Some (Returns None), st1)
              else if Success chanSteps then
                CreateChannel1_loop k env order' (Suc t) (st1\<lparr>failures := 0\<rparr>)
              else
                let st2 = st1\<lparr>failures := failures st1 + 1, events := events st1 @ [Slept]\<rparr>
                in if failures st2 > 2 then (Some (channelFailed1 src dst), st2)
                   else CreateChannel1_loop k env order' (Suc t) st2)"

definition CreateChannel1 ::
  "nat \<Rightarrow> (nat \<Rightarrow> world) \<Rightarrow> bool \<Rightarrow> int \<Rightarrow> outcome option \<times> driver" where
  "CreateChannel1 fuel env ordered to =
     (let st0 = \<lparr>failures = 0, events = []\<rparr>;
          order' = (if ordered then ORDERED else UNORDERED) in
      if to \<le> 0 then (Some (Panics NonPositiveInterval), st0)
      else CreateChannel1_loop fuel env order' 0 st0)"


subsection \<open>The dispatch table of the specification\<close>

text \<open>
  The table of section 4.2 as the specification words it: for a pair of channel states,
  the side that receives messages, the handshake message, and whether the batch is the
  last step. Seven pairs have an entry.
\<close>

datatype side = ToSrc | ToDst

datatype handshake = ChanOpenInit | ChanOpenTry | ChanOpenAck | ChanOpenConfirm

fun dispatch_table :: "State \<Rightarrow> State \<Rightarrow> (side \<times> handshake \<times> bool) option" where
  "dispatch_table UNINITIALIZED UNINITIALIZED = Some (ToSrc, ChanOpenInit, False)"
| "dispatch_table UNINITIALIZED INIT = Some (ToSrc, ChanOpenTry, False)"
| "dispatch_table INIT UNINITIALIZED = Some (ToDst, ChanOpenTry, False)"
| "dispatch_table TRYOPEN INIT = Some (ToDst, ChanOpenAck, False)"
| "dispatch_table INIT TRYOPEN = Some (ToSrc, ChanOpenAck, False)"
| "dispatch_table TRYOPEN OPEN = Some (ToSrc, ChanOpenConfirm, True)"
| "dispatch_table OPEN TRYOPEN = Some (ToDst, ChanOpenConfirm, True)"
| "dispatch_table _ _ = None"

text \<open>
  The handshake message of the receiving side \<open>pe\<close>, built from the counterparty's path
  and channel record; and the update-client messages that go before it: one for each
  pending header of the counterparty, none before \<open>ChanOpenInit\<close>.
\<close>

fun handshake_msg ::
  "handshake \<Rightarrow> PathEnd \<Rightarrow> PathEnd \<Rightarrow> QueryChannelResponse \<Rightarrow> Address \<Rightarrow> Msg" where
  "handshake_msg ChanOpenInit pe cp cpChan addr = MsgChannelOpenInit pe cp addr"
| "handshake_msg ChanOpenTry pe cp cpChan addr = MsgChannelOpenTry pe cp cpChan addr"
| "handshake_msg ChanOpenAck pe cp cpChan addr = MsgChannelOpenAck pe cp cpChan addr"
| "handshake_msg ChanOpenConfirm pe cp cpChan addr = MsgChannelOpenConfirm pe cpChan addr"

fun pending_updates :: "handshake \<Rightarrow> PathEnd \<Rightarrow> Header list \<Rightarrow> Address \<Rightarrow> Msg list" where
  "pending_updates ChanOpenInit pe hs addr = []"
| "pending_updates h pe hs addr = map (\<lambda>x. MsgUpdateClient pe x addr) hs"

text \<open>The chain that a side names.\<close>

fun receiver :: "side \<Rightarrow> world \<Rightarrow> ProvableChain" where
  "receiver ToSrc w = srcChain w"
| "receiver ToDst w = dstChain w"

text \<open>
  The batch the table asks for: on the receiving side the pending updates and then the
  handshake message, nothing on the other side.
\<close>

fun expected_batch ::
  "side \<Rightarrow> handshake \<Rightarrow> bool \<Rightarrow> PathEnd \<Rightarrow> PathEnd \<Rightarrow> Header list \<Rightarrow> Header list
     \<Rightarrow> QueryChannelResponse \<Rightarrow> QueryChannelResponse \<Rightarrow> Address \<Rightarrow> RelayMsgs" where
  "expected_batch ToSrc h lst srcPath dstPath srcHdrs dstHdrs srcChan dstChan addr =
     \<lparr>Src = pending_updates h srcPath dstHdrs addr @ [handshake_msg h srcPath dstPath dstChan addr],
      Dst = [], Last = lst, Succeeded = False\<rparr>"
| "expected_batch ToDst h lst srcPath dstPath srcHdrs dstHdrs srcChan dstChan addr =
     \<lparr>Src = [],
      Dst = pending_updates h dstPath srcHdrs addr @ [handshake_msg h dstPath srcPath srcChan addr],
      Last = lst, Succeeded = False\<rparr>"

subsection \<open>Concrete chains and worlds\<close>

definition path0 :: PathEnd where
  "path0 = \<lparr>ClientID = ''07-tendermint-0'', ConnectionID = ''connection-0'',
            ChannelID = ''channel-0'', PortID = ''transfer''\<rparr>"

definition path1 :: PathEnd where
  "path1 = \<lparr>ClientID = ''07-tendermint-1'', ConnectionID = ''connection-1'',
            ChannelID = ''channel-1'', PortID = ''transfer''\<rparr>"

definition chanAt :: "State \<Rightarrow> nat \<Rightarrow> QueryChannelResponse" where
  "chanAt s h = \<lparr>Channel = \<lparr>State = s, Ordering = UNORDERED, Version = ''ics20-1''\<rparr>,
                 Proof = [], ProofHeight = h\<rparr>"

text \<open>
  A chain whose channel is in state \<open>s\<close> below height 10 and in state \<open>s'\<close> from there on,
  whose latest height is 10, and which accepts a submission iff \<open>ok\<close>.
\<close>

definition chain_of ::
  "string \<Rightarrow> PathEnd \<Rightarrow> (ext_error + Address) \<Rightarrow> State \<Rightarrow> State \<Rightarrow> bool \<Rightarrow> ProvableChain" where
  "chain_of cid pe addr s s' ok =
     \<lparr>ChainID = cid, Path = Some pe, GetAddress = addr, LatestHeight = Inr 10,
      QueryChannel = (\<lambda>h. Inr (chanAt (if h < 10 then s else s') h)),
      SendMsgs = (\<lambda>ms. ok)\<rparr>"

text \<open>
  A world in which the header synchronizer is at height \<open>pin\<close> on both chains and two
  headers of dst and one header of src are pending.
\<close>

definition world_of :: "ProvableChain \<Rightarrow> ProvableChain \<Rightarrow> nat \<Rightarrow> world" where
  "world_of src dst pin =
     \<lparr>srcChain = src, dstChain = dst, rtyAtt = 5, NewSyncHeaders = Inr (\<lambda>_. pin),
      SetupBothHeadersForUpdate = (\<lambda>n. Inr ([7], [8, 9])),
      Updates = (\<lambda>n. Inr (\<lambda>_. pin))\<rparr>"

text \<open>A settled world: both chains answer, the states are final at the latest height.\<close>

definition settled :: "State \<Rightarrow> State \<Rightarrow> bool \<Rightarrow> world" where
  "settled s d ok =
     world_of (chain_of ''ibc0'' path0 (Inr ''alice'') s s ok)
              (chain_of ''ibc1'' path1 (Inr ''bob'') d d ok) 10"

text \<open>
  A world caught in transition: at height 9, where the header synchronizer stands, both
  channels are uninitialized; at the latest height 10 the channel of src is in \<open>INIT\<close>.
\<close>

definition in_transition :: world where
  "in_transition =
     world_of (chain_of ''ibc0'' path0 (Inr ''alice'') UNINITIALIZED INIT True)
              (chain_of ''ibc1'' path1 (Inr ''bob'') UNINITIALIZED UNINITIALIZED True) 9"

text \<open>A world in which src has no key: \<^verbatim>\<open>GetAddress\<close> of src fails.\<close>

definition keyless :: "State \<Rightarrow> State \<Rightarrow> world" where
  "keyless s d =
     world_of (chain_of ''ibc0'' path0 (Inl ''key not found'') s s True)
              (chain_of ''ibc1'' path1 (Inr ''bob'') d d True) 10"

text \<open>
  A world in which the pending headers cannot be set up: attempt \<open>n\<close> fails with an error
  that tells the attempt, and every refresh of the headers succeeds.
\<close>

definition stalled :: world where
  "stalled =
     (settled INIT TRYOPEN True)
       \<lparr>SetupBothHeadersForUpdate := (\<lambda>n. Inl (''no header, attempt '' @ replicate n CHR ''+''))\<rparr>"

text \<open>
  The same world, except that the refresh of the headers after the last of the five
  attempts fails: the refreshes after the attempts 0 to 3 succeed.
\<close>

definition refresh_fails :: world where
  "refresh_fails =
     stalled\<lparr>Updates := (\<lambda>n. if n < 4 then Inr (\<lambda>_. 10) else Inl ''refresh failed'')\<rparr>"

subsection \<open>Consecutive submission failures\<close>

text \<open>
  The batches that were submitted, oldest first, and the number of submissions that
  failed one after the other up to now: the failed ones at the end of the history.
\<close>

fun sent_batches :: "event list \<Rightarrow> RelayMsgs list" where
  "sent_batches [] = []"
| "sent_batches (Sent r # es) = r # sent_batches es"
| "sent_batches (Slept # es) = sent_batches es"

definition consecutive_failures :: "event list \<Rightarrow> nat" where
  "consecutive_failures es = length (takeWhile (\<lambda>r. \<not> Succeeded r) (rev (sent_batches es)))"

text \<open>The driver has ended with the terminal error \<^verbatim>\<open>"! Channel failed: ..."\<close>.\<close>

fun channel_failed :: "outcome option \<Rightarrow> bool" where
  "channel_failed (Some (Returns (Some (ChannelFailed msg)))) = True"
| "channel_failed _ = False"


subsection \<open>The strategy runner\<close>

text \<open>
  \<^verbatim>\<open>RunStrategy\<close> makes a channel, starts two goroutines and returns a closure. The model
  keeps what decides who can talk to whom: which channels exist, which goroutines were
  started and with which arguments, and which channels an object holds. A channel is
  named by its number in the order of creation.
\<close>

type_synonym chan = nat

text \<open>
  A chain and a strategy as \<^verbatim>\<open>RunStrategy\<close> receives them, behind the interfaces
  \<^verbatim>\<open>ChainI\<close> and \<^verbatim>\<open>StrategyI\<close>: a name, the channels the object holds, and for the
  strategy the answers of the two calls that \<^verbatim>\<open>RunStrategy\<close> makes.
\<close>

type_synonym RelaySequences = "nat list \<times> nat list"

record ChainI =
  ChainI_ChainID :: string
  ChainI_chans :: "chan list"

record StrategyI =
  GetType :: string
  StrategyI_chans :: "chan list"
  UnrelayedSequences :: "ext_error + RelaySequences"
  RelayPackets :: "ext_error option"

text \<open>
  A goroutine started by \<^verbatim>\<open>go c.StartEventListener(dst, strategy)\<close>: the receiver \<open>c\<close> and
  the two arguments are all it is given.
\<close>

record goroutine =
  listener :: ChainI
  counterparty :: ChainI
  handler :: StrategyI

record runtime =
  made :: nat
  goroutines :: "goroutine list"

text \<open>\<^verbatim>\<open>make(chan struct{})\<close>: a channel that did not exist before.\<close>

definition make_chan :: "runtime \<Rightarrow> chan \<times> runtime" where
  "make_chan rt = (made rt, rt\<lparr>made := Suc (made rt)\<rparr>)"

definition go_StartEventListener :: "ChainI \<Rightarrow> ChainI \<Rightarrow> StrategyI \<Rightarrow> runtime \<Rightarrow> runtime" where
  "go_StartEventListener c dst strategy rt =
     rt\<lparr>goroutines := goroutines rt @ [\<lparr>listener = c, counterparty = dst, handler = strategy\<rparr>]\<rparr>"

text \<open>The closure \<^verbatim>\<open>func() { doneChan <- struct{}{} }\<close>: when invoked it sends on its channel.\<close>

datatype closure = SendOn chan

text \<open>
  \<^verbatim>\<open>RunStrategy\<close>. The second argument is the answer of \<^verbatim>\<open>NewSyncHeaders(src, dst)\<close>.
  The result is the closure or the error, and the runtime as the call leaves it.
\<close>

definition RunStrategy ::
  "runtime \<Rightarrow> (ext_error + SyncHeaders) \<Rightarrow> ChainI \<Rightarrow> ChainI \<Rightarrow> StrategyI
     \<Rightarrow> (ext_error + closure) \<times> runtime" where
  "RunStrategy rt newSyncHeaders src dst strategy =
     (let (doneChan, rt1) = make_chan rt in
      case newSyncHeaders of
        Inl err \<Rightarrow> (Inl err, rt1)
      | Inr sh \<Rightarrow>
          let rt2 = go_StartEventListener src dst strategy rt1;
              rt3 = go_StartEventListener dst src strategy rt2
          in case UnrelayedSequences strategy of
               Inl err \<Rightarrow> (Inl err, rt3)
             | Inr sp \<Rightarrow>
                 (case RelayPackets strategy of
                    Some err \<Rightarrow> (Inl err, rt3)
                  | None \<Rightarrow> (Inr (SendOn doneChan), rt3)))"

text \<open>
  The channels a goroutine can reach are those its receiver and its arguments hold. A
  send on an unbuffered channel is completed by a goroutine that receives on that
  channel, so only by one that can reach it: \<open>receivers f rt\<close> are the goroutines that can
  take what the closure \<open>f\<close> sends. When there is none, the send blocks for ever.
\<close>

definition reachable :: "goroutine \<Rightarrow> chan list" where
  "reachable g = ChainI_chans (listener g) @ ChainI_chans (counterparty g)
                   @ StrategyI_chans (handler g)"

fun receivers :: "closure \<Rightarrow> runtime \<Rightarrow> goroutine list" where
  "receivers (SendOn c) rt = filter (\<lambda>g. c \<in> set (reachable g)) (goroutines rt)"

text \<open>
  Every channel held by the objects at hand, or reachable by a goroutine that runs
  already, has been made.
\<close>

definition known :: "runtime \<Rightarrow> ChainI \<Rightarrow> ChainI \<Rightarrow> StrategyI \<Rightarrow> bool" where
  "known rt src dst strategy =
     (list_all (\<lambda>c. c < made rt) (ChainI_chans src @ ChainI_chans dst @ StrategyI_chans strategy)
      \<and> list_all (\<lambda>g. list_all (\<lambda>c. c < made rt) (reachable g)) (goroutines rt))"

text \<open>
  A concrete call: two channels exist, one held by each chain (say, the chain's own event
  subscription); no goroutine runs; the strategy has nothing to relay.
\<close>

definition chainI0 :: ChainI where
  "chainI0 = \<lparr>ChainI_ChainID = ''ibc0'', ChainI_chans = [0]\<rparr>"

definition chainI1 :: ChainI where
  "chainI1 = \<lparr>ChainI_ChainID = ''ibc1'', ChainI_chans = [1]\<rparr>"

definition naive :: StrategyI where
  "naive = \<lparr>GetType = ''naive'', StrategyI_chans = [], UnrelayedSequences = Inr ([], []),
            RelayPackets = None\<rparr>"

definition runtime0 :: runtime where
  "runtime0 = \<lparr>made = 2, goroutines = []\<rparr>"

section \<open>Theorems\<close>

lemma switch_Some:
  assumes "dispatch_table (State (Channel srcChan)) (State (Channel dstChan)) = Some (sd, h, lst)"
  shows "createChannelStep_switch (srcChain w) (dstChain w) srcPath dstPath srcHdrs dstHdrs
           srcChan dstChan NewRelayMsgs =
         (case GetAddress (receiver sd w) of
            Inl err \<Rightarrow> Panic (PanicErr err)
          | Inr addr \<Rightarrow> Return (expected_batch sd h lst srcPath dstPath srcHdrs dstHdrs srcChan dstChan addr))"
  using assms
  by (cases "State (Channel srcChan)"; cases "State (Channel dstChan)")
     (auto simp: createChannelStep_switch_def mustGetAddress_def NewRelayMsgs_def
        UpdateClients_def ChanInit_def ChanTry_def ChanAck_def ChanConfirm_def Let_def
        split: sum.splits)

lemma switch_None:
  assumes "dispatch_table (State (Channel srcChan)) (State (Channel dstChan)) = None"
  shows "createChannelStep_switch src dst srcPath dstPath srcHdrs dstHdrs srcChan dstChan out =
         Panic (NotImplemented (State (Channel srcChan)) (State (Channel dstChan)))"
  using assms
  by (cases "State (Channel srcChan)"; cases "State (Channel dstChan)")
     (simp_all add: createChannelStep_switch_def)

lemma dispatch_table_last:
  "dispatch_table s d = Some (sd, h, lst) \<Longrightarrow>
     lst = ((s = TRYOPEN \<and> d = OPEN) \<or> (s = OPEN \<and> d = TRYOPEN))"
  by (cases s; cases d) auto

lemma dispatch_table_seven:
  "{(s, d). dispatch_table s d \<noteq> None} =
     {(UNINITIALIZED, UNINITIALIZED), (UNINITIALIZED, INIT), (INIT, UNINITIALIZED),
      (TRYOPEN, INIT), (INIT, TRYOPEN), (TRYOPEN, OPEN), (OPEN, TRYOPEN)}"
proof -
  have "dispatch_table s d \<noteq> None \<longleftrightarrow>
          (s, d) \<in> {(UNINITIALIZED, UNINITIALIZED), (UNINITIALIZED, INIT), (INIT, UNINITIALIZED),
      (TRYOPEN, INIT), (INIT, TRYOPEN), (TRYOPEN, OPEN), (OPEN, TRYOPEN)}" for s d
    by (cases s; cases d) simp_all
  then show ?thesis by blast
qed

text \<open>
  Claim C1. Let the evaluation reach the dispatch with a pair of channel states that has
  an entry in the table of section 4.2, and let the address of the receiving chain be
  known. Then both versions of \<^verbatim>\<open>createChannelStep\<close> return the batch of the entry (the
  first version once the finality check has passed): on the receiving side the
  update-client messages for the pending headers of the counterparty, in their order,
  and after them the one handshake message; nothing on the other side. The batch is
  marked as the last step exactly for the pairs (TRYOPEN, OPEN) and (OPEN, TRYOPEN).
\<close>

theorem createChannelStep_dispatch:
  assumes su: "createChannelStep_setup w =
            Return (srcPath, dstPath, srcHdrs, dstHdrs, srcChan, dstChan)"
    and tab: "dispatch_table (State (Channel srcChan)) (State (Channel dstChan)) = Some (sd, h, lst)"
    and addr: "GetAddress (receiver sd w) = Inr addr"
  shows "(checkChannelFinality (srcChain w) (dstChain w) (Channel srcChan) (Channel dstChan) = Inr True
            \<longrightarrow> createChannelStep0 w ord =
                  Return (expected_batch sd h lst srcPath dstPath srcHdrs dstHdrs srcChan dstChan addr))
       \<and> createChannelStep1 w ord =
            Return (expected_batch sd h lst srcPath dstPath srcHdrs dstHdrs srcChan dstChan addr)
       \<and> lst = ((State (Channel srcChan) = TRYOPEN \<and> State (Channel dstChan) = OPEN)
                \<or> (State (Channel srcChan) = OPEN \<and> State (Channel dstChan) = TRYOPEN))"
  using dispatch_table_last[OF tab]
  by (simp add: createChannelStep0_def createChannelStep1_def su switch_Some[OF tab] addr)


lemma setup_settled:
  "createChannelStep_setup (settled s d ok) =
     Return (path0, path1, [7], [8, 9], chanAt s 10, chanAt d 10)"
  by (simp add: createChannelStep_setup_def settled_def world_of_def chain_of_def
        validatePaths_def QueryChannelPair_def GetQueryContext_def eval_nat_numeral)

lemma finality_settled:
  "checkChannelFinality (srcChain (settled s d ok)) (dstChain (settled s d ok))
     (Channel (chanAt s 10)) (Channel (chanAt d 10)) = Inr True"
  by (simp add: checkChannelFinality_def settled_def world_of_def chain_of_def
        QueryChannelPair_def chanAt_def)

lemma GetAddress_settled:
  "GetAddress (srcChain (settled s d ok)) = Inr ''alice''"
  "GetAddress (dstChain (settled s d ok)) = Inr ''bob''"
  by (simp_all add: settled_def world_of_def chain_of_def)

lemma State_chanAt: "State (Channel (chanAt s h)) = s"
  by (simp add: chanAt_def)

text \<open>
  The scenario "dst ahead one step" of the specification, as an instance of C1: with two
  pending headers of dst the batch for src is two updates and then the try message.
\<close>

theorem createChannelStep_dispatch_witness:
  "createChannelStep0 (settled UNINITIALIZED INIT True) ORDERED =
     Return \<lparr>Src = [MsgUpdateClient path0 8 ''alice'', MsgUpdateClient path0 9 ''alice'',
                    MsgChannelOpenTry path0 path1 (chanAt INIT 10) ''alice''],
             Dst = [], Last = False, Succeeded = False\<rparr>
   \<and> createChannelStep1 (settled UNINITIALIZED INIT True) ORDERED =
     Return \<lparr>Src = [MsgUpdateClient path0 8 ''alice'', MsgUpdateClient path0 9 ''alice'',
                    MsgChannelOpenTry path0 path1 (chanAt INIT 10) ''alice''],
             Dst = [], Last = False, Succeeded = False\<rparr>"
  using createChannelStep_dispatch [OF setup_settled, of UNINITIALIZED INIT ToSrc ChanOpenTry False True
          "''alice''" ORDERED]
  by (simp add: State_chanAt finality_settled GetAddress_settled)

text \<open>
  Claim C5. Let the evaluation reach the dispatch with a pair of channel states that has
  no entry in the table. Then both versions of \<^verbatim>\<open>createChannelStep\<close> panic (the first
  version once the finality check has passed): no batch and no error value is returned.
\<close>

theorem createChannelStep_default_panics:
  assumes su: "createChannelStep_setup w =
            Return (srcPath, dstPath, srcHdrs, dstHdrs, srcChan, dstChan)"
    and tab: "dispatch_table (State (Channel srcChan)) (State (Channel dstChan)) = None"
  shows "(checkChannelFinality (srcChain w) (dstChain w) (Channel srcChan) (Channel dstChan) = Inr True
            \<longrightarrow> createChannelStep0 w ord =
                  Panic (NotImplemented (State (Channel srcChan)) (State (Channel dstChan))))
       \<and> createChannelStep1 w ord =
            Panic (NotImplemented (State (Channel srcChan)) (State (Channel dstChan)))"
  by (simp add: createChannelStep0_def createChannelStep1_def su switch_None[OF tab])

text \<open>
  An instance of C5: with both channels open the evaluator panics.
\<close>

theorem createChannelStep_default_panics_witness:
  "createChannelStep0 (settled OPEN OPEN True) UNORDERED = Panic (NotImplemented OPEN OPEN)
   \<and> createChannelStep1 (settled OPEN OPEN True) UNORDERED = Panic (NotImplemented OPEN OPEN)"
  using createChannelStep_default_panics [OF setup_settled, of OPEN OPEN True UNORDERED]
  by (simp add: State_chanAt finality_settled)

text \<open>
  Claim C9. The result of \<^verbatim>\<open>createChannelStep\<close> is the same for every two values of its
  ordering argument, in both versions.
\<close>

theorem createChannelStep_ignores_ordering:
  "createChannelStep0 w ord = createChannelStep0 w ord'
   \<and> createChannelStep1 w ord = createChannelStep1 w ord'"
  by (simp add: createChannelStep0_def createChannelStep1_def)


lemma retry_Do_exhausted:
  assumes "\<forall>i<k. SetupBothHeadersForUpdate w (n + i) = Inl (e (n + i))"
    and "\<forall>i<k. Updates w (n + i) = Inr (u (n + i))"
  shows "retry_Do w k n sh lastErr =
           (case k of
              0 \<Rightarrow> (case lastErr of None \<Rightarrow> Return (([], []), sh) | Some err \<Rightarrow> Error err)
            | Suc j \<Rightarrow> Error (External (e (n + j))))"
  using assms
proof (induction k arbitrary: n sh lastErr)
  case 0
  then show ?case by simp
next
  case (Suc k)
  have a0: "SetupBothHeadersForUpdate w n = Inl (e n)" and u0: "Updates w n = Inr (u n)"
    using Suc.prems(1)[rule_format, of 0] Suc.prems(2)[rule_format, of 0] by simp_all
  have a: "\<forall>i<k. SetupBothHeadersForUpdate w (Suc n + i) = Inl (e (Suc n + i))"
    using Suc.prems(1) by (metis Suc_less_eq add_Suc_shift)
  have b: "\<forall>i<k. Updates w (Suc n + i) = Inr (u (Suc n + i))"
    using Suc.prems(2) by (metis Suc_less_eq add_Suc_shift)
  show ?case
    using Suc.IH[OF a b, of "u n" "Some (External (e n))"]
    by (simp add: a0 u0 split: nat.splits)
qed

lemma retry_Do_refresh_fails:
  assumes "\<forall>i\<le>j. SetupBothHeadersForUpdate w (n + i) = Inl (e (n + i))"
    and "\<forall>i<j. Updates w (n + i) = Inr (u (n + i))"
    and "Updates w (n + j) = Inl uerr"
    and "j < k"
  shows "retry_Do w k n sh lastErr = Panic (PanicErr uerr)"
  using assms
proof (induction j arbitrary: k n sh lastErr)
  case 0
  then obtain k' where "k = Suc k'" by (cases k) auto
  with 0 show ?case by simp
next
  case (Suc j)
  then obtain k' where k: "k = Suc k'" "j < k'" by (cases k) auto
  have a0: "SetupBothHeadersForUpdate w n = Inl (e n)" and u0: "Updates w n = Inr (u n)"
    using Suc.prems(1)[rule_format, of 0] Suc.prems(2)[rule_format, of 0] by simp_all
  have a: "\<forall>i\<le>j. SetupBothHeadersForUpdate w (Suc n + i) = Inl (e (Suc n + i))"
    using Suc.prems(1) by (metis Suc_le_mono add_Suc_shift)
  have b: "\<forall>i<j. Updates w (Suc n + i) = Inr (u (Suc n + i))"
    using Suc.prems(2) by (metis Suc_less_eq add_Suc_shift)
  have c: "Updates w (Suc n + j) = Inl uerr"
    using Suc.prems(3) by simp
  show ?case
    using Suc.IH[OF a b c k(2), of "u n" "Some (External (e n))"]
    by (simp add: k(1) a0 u0)
qed

lemma retry_Do_Error:
  "retry_Do w k n sh lastErr = Error err \<Longrightarrow> lastErr = Some err \<or> (\<exists>x. err = External x)"
  by (induction k arbitrary: n sh lastErr) (auto split: option.splits sum.splits)

lemma setup_Error:
  "createChannelStep_setup w = Error err \<Longrightarrow> (\<exists>x. err = External x) \<or> (\<exists>c. err = PathNotSet c)"
  apply (auto simp: createChannelStep_setup_def validatePaths_def Let_def split: option.splits sum.splits prod.splits)
  subgoal for a b c
    apply (cases "retry_Do w (rtyAtt w) 0 c None")
    apply (auto split: prod.splits sum.splits dest: retry_Do_Error)
    done
  done

lemma setup_Return_paths:
  "createChannelStep_setup w = Return (sp, dp, x) \<Longrightarrow>
     Path (srcChain w) = Some sp \<and> Path (dstChain w) = Some dp"
  apply (auto simp: createChannelStep_setup_def validatePaths_def Let_def split: option.splits sum.splits prod.splits)
  subgoal for a b c
    apply (cases "retry_Do w (rtyAtt w) 0 c None")
    apply (auto split: prod.splits sum.splits)
    done
  subgoal for a b c
    apply (cases "retry_Do w (rtyAtt w) 0 c None")
    apply (auto split: prod.splits sum.splits)
    done
  done


lemma setup_world_of:
  "createChannelStep_setup (world_of (chain_of c0 p0 a0 s s' ok0) (chain_of c1 p1 a1 d d' ok1) pin) =
     Return (p0, p1, [7], [8, 9], chanAt (if pin < 10 then s else s') pin,
             chanAt (if pin < 10 then d else d') pin)"
  by (simp add: createChannelStep_setup_def world_of_def chain_of_def
        validatePaths_def QueryChannelPair_def GetQueryContext_def eval_nat_numeral)

text \<open>
  Claim C7, amended. Let both paths be set and the header synchronizer be built, let the
  retry option allow \<open>m + 1\<close> attempts and let every attempt of
  \<^verbatim>\<open>SetupBothHeadersForUpdate\<close> fail. If every refresh of the headers by the \<^verbatim>\<open>OnRetry\<close>
  callback succeeds (one follows each failed attempt, the last attempt too), both versions
  of \<^verbatim>\<open>createChannelStep\<close> return the error of the last attempt. If a refresh fails,
  the refreshes before it having succeeded, both versions panic with the error of that
  refresh.
\<close>

theorem createChannelStep_retry_exhausted:
  assumes "Path (srcChain w) = Some srcPath" and "Path (dstChain w) = Some dstPath"
    and "NewSyncHeaders w = Inr sh0"
    and "rtyAtt w = Suc m"
    and "\<forall>i\<le>m. SetupBothHeadersForUpdate w i = Inl (e i)"
  shows "((\<forall>i\<le>m. Updates w i = Inr (u i)) \<longrightarrow>
            createChannelStep0 w ord = Error (External (e m))
            \<and> createChannelStep1 w ord = Error (External (e m)))
       \<and> (\<forall>j uerr. j \<le> m \<and> (\<forall>i<j. Updates w i = Inr (u i)) \<and> Updates w j = Inl uerr \<longrightarrow>
            createChannelStep0 w ord = Panic (PanicErr uerr)
            \<and> createChannelStep1 w ord = Panic (PanicErr uerr))"
proof (intro conjI impI allI)
  assume upd: "\<forall>i\<le>m. Updates w i = Inr (u i)"
  have a: "\<forall>i<Suc m. SetupBothHeadersForUpdate w (0 + i) = Inl (e (0 + i))"
    using assms(5) by simp
  have b: "\<forall>i<Suc m. Updates w (0 + i) = Inr (u (0 + i))"
    using upd by simp
  have "retry_Do w (Suc m) 0 sh0 None = Error (External (e m))"
    using retry_Do_exhausted[OF a b, of sh0 None] by simp
  then have su: "createChannelStep_setup w = Error (External (e m))"
    using assms(1-4) by (simp add: createChannelStep_setup_def validatePaths_def)
  from su show "createChannelStep0 w ord = Error (External (e m))"
    by (simp add: createChannelStep0_def)
  from su show "createChannelStep1 w ord = Error (External (e m))"
    by (simp add: createChannelStep1_def)
next
  fix j uerr
  assume h: "j \<le> m \<and> (\<forall>i<j. Updates w i = Inr (u i)) \<and> Updates w j = Inl uerr"
  have a: "\<forall>i\<le>j. SetupBothHeadersForUpdate w (0 + i) = Inl (e (0 + i))"
    using assms(5) h by simp
  have b: "\<forall>i<j. Updates w (0 + i) = Inr (u (0 + i))"
    using h by simp
  have c: "Updates w (0 + j) = Inl uerr"
    using h by simp
  have d: "j < Suc m"
    using h by simp
  have "retry_Do w (Suc m) 0 sh0 None = Panic (PanicErr uerr)"
    by (rule retry_Do_refresh_fails[OF a b c d])
  then have su: "createChannelStep_setup w = Panic (PanicErr uerr)"
    using assms(1-4) by (simp add: createChannelStep_setup_def validatePaths_def)
  from su show "createChannelStep0 w ord = Panic (PanicErr uerr)"
    by (simp add: createChannelStep0_def)
  from su show "createChannelStep1 w ord = Panic (PanicErr uerr)"
    by (simp add: createChannelStep1_def)
qed

lemma stalled_facts:
  "Path (srcChain stalled) = Some path0"
  "Path (dstChain stalled) = Some path1"
  "NewSyncHeaders stalled = Inr (\<lambda>_. 10)"
  "rtyAtt stalled = Suc 4"
  "SetupBothHeadersForUpdate stalled n = Inl (''no header, attempt '' @ replicate n CHR ''+'')"
  "Updates stalled n = Inr (\<lambda>_. 10)"
  by (simp_all add: stalled_def settled_def world_of_def chain_of_def)

lemma refresh_fails_facts:
  "Path (srcChain refresh_fails) = Some path0"
  "Path (dstChain refresh_fails) = Some path1"
  "NewSyncHeaders refresh_fails = Inr (\<lambda>_. 10)"
  "rtyAtt refresh_fails = Suc 4"
  "SetupBothHeadersForUpdate refresh_fails n
     = Inl (''no header, attempt '' @ replicate n CHR ''+'')"
  "Updates refresh_fails n = (if n < 4 then Inr (\<lambda>_. 10) else Inl ''refresh failed'')"
  by (simp_all add: refresh_fails_def stalled_facts)

text \<open>
  Instances of C7 as amended: with five failing attempts and every refresh succeeding,
  the error returned is that of attempt 4; when the refresh after attempt 4 fails, the
  evaluator panics with the error of the refresh.
\<close>

theorem createChannelStep_retry_exhausted_witness:
  "createChannelStep0 stalled ORDERED = Error (External ''no header, attempt ++++'')
   \<and> createChannelStep1 stalled ORDERED = Error (External ''no header, attempt ++++'')
   \<and> createChannelStep0 refresh_fails ORDERED = Panic (PanicErr ''refresh failed'')
   \<and> createChannelStep1 refresh_fails ORDERED = Panic (PanicErr ''refresh failed'')"
proof -
  have a1: "\<forall>i\<le>4. SetupBothHeadersForUpdate stalled i
              = Inl (''no header, attempt '' @ replicate i CHR ''+'')"
    by (simp add: stalled_facts)
  have a2: "\<forall>i\<le>4. SetupBothHeadersForUpdate refresh_fails i
              = Inl (''no header, attempt '' @ replicate i CHR ''+'')"
    by (simp add: refresh_fails_facts)
  note t1 = createChannelStep_retry_exhausted [OF stalled_facts(1-4) a1, of "\<lambda>_ _. 10" ORDERED]
  note t2 = createChannelStep_retry_exhausted [OF refresh_fails_facts(1-4) a2,
              of "\<lambda>_ _. 10" ORDERED]
  have u1: "\<forall>i\<le>4. Updates stalled i = Inr ((\<lambda>_ _. 10) i)"
    by (simp add: stalled_facts)
  have e: "createChannelStep0 stalled ORDERED = Error (External ''no header, attempt ++++'')
           \<and> createChannelStep1 stalled ORDERED = Error (External ''no header, attempt ++++'')"
    using t1[THEN conjunct1, THEN mp, OF u1] by (simp add: eval_nat_numeral)
  have u2: "(4::nat) \<le> 4 \<and> (\<forall>i<4. Updates refresh_fails i = Inr ((\<lambda>_ _. 10) i))
          \<and> Updates refresh_fails 4 = Inl ''refresh failed''"
    by (simp add: refresh_fails_facts)
  have p: "createChannelStep0 refresh_fails ORDERED = Panic (PanicErr ''refresh failed'')
           \<and> createChannelStep1 refresh_fails ORDERED = Panic (PanicErr ''refresh failed'')"
    using t2[THEN conjunct2, THEN spec, THEN spec, THEN mp, OF u2] .
  from e p show ?thesis by simp
qed

text \<open>
  Claim C7 as stated fails: in this world the call of \<^verbatim>\<open>SetupBothHeadersForUpdate\<close>
  fails in each of the five attempts that the retry option allows, so the attempts are
  exhausted, and the refreshes 0 to 3 succeed; the refresh after the last attempt fails,
  and both versions of \<^verbatim>\<open>createChannelStep\<close> panic instead of returning the error.
\<close>

theorem createChannelStep_retry_panics_counterexample:
  "rtyAtt refresh_fails = 5
   \<and> SetupBothHeadersForUpdate refresh_fails 0 = Inl ''no header, attempt ''
   \<and> SetupBothHeadersForUpdate refresh_fails 1 = Inl ''no header, attempt +''
   \<and> SetupBothHeadersForUpdate refresh_fails 2 = Inl ''no header, attempt ++''
   \<and> SetupBothHeadersForUpdate refresh_fails 3 = Inl ''no header, attempt +++''
   \<and> SetupBothHeadersForUpdate refresh_fails 4 = Inl ''no header, attempt ++++''
   \<and> Updates refresh_fails 4 = Inl ''refresh failed''
   \<and> createChannelStep0 refresh_fails ORDERED = Panic (PanicErr ''refresh failed'')
   \<and> createChannelStep1 refresh_fails ORDERED = Panic (PanicErr ''refresh failed'')
   \<and> createChannelStep0 refresh_fails ORDERED \<noteq> Error (External ''no header, attempt ++++'')
   \<and> createChannelStep1 refresh_fails ORDERED \<noteq> Error (External ''no header, attempt ++++'')"
proof -
  have s: "createChannelStep_setup refresh_fails = Panic (PanicErr ''refresh failed'')"
    by (simp add: createChannelStep_setup_def validatePaths_def refresh_fails_facts
          eval_nat_numeral)
  show ?thesis
    by (simp add: createChannelStep0_def createChannelStep1_def s refresh_fails_facts
          eval_nat_numeral)
qed

lemma retry_Do_cong:
  "SetupBothHeadersForUpdate w' = SetupBothHeadersForUpdate w \<Longrightarrow> Updates w' = Updates w \<Longrightarrow>
     retry_Do w' k n sh lastErr = retry_Do w k n sh lastErr"
  by (induction k arbitrary: n sh lastErr) (auto split: sum.splits)

lemma retry_Do_chains:
  "retry_Do (w\<lparr>srcChain := a, dstChain := b\<rparr>) k n sh lastErr = retry_Do w k n sh lastErr"
  by (rule retry_Do_cong) simp_all

lemma setup_LatestHeight:
  "createChannelStep_setup
     (w\<lparr>srcChain := (srcChain w)\<lparr>LatestHeight := lh\<rparr>,
        dstChain := (dstChain w)\<lparr>LatestHeight := lh'\<rparr>\<rparr>) = createChannelStep_setup w"
  by (simp add: createChannelStep_setup_def validatePaths_def QueryChannelPair_def Let_def
        retry_Do_chains cong: option.case_cong sum.case_cong)

lemma switch_LatestHeight:
  "createChannelStep_switch (src\<lparr>LatestHeight := lh\<rparr>) (dst\<lparr>LatestHeight := lh'\<rparr>) sp dp sh dh sc dc out
     = createChannelStep_switch src dst sp dp sh dh sc dc out"
  by (simp add: createChannelStep_switch_def mustGetAddress_def)

text \<open>
  Claim C2, amended. In the first version: let the evaluation reach the finality check,
  let both latest heights and both channels at the latest heights be obtained, and let
  the state of src or of dst there differ from the state observed before. Then
  \<^verbatim>\<open>createChannelStep\<close> returns the empty batch, which is not ready and holds no message.
  The second version does not look at the latest heights: its result stays the same
  whatever \<^verbatim>\<open>LatestHeight\<close> answers.
\<close>

theorem createChannelStep_finality:
  assumes su: "createChannelStep_setup w =
            Return (srcPath, dstPath, srcHdrs, dstHdrs, srcChan, dstChan)"
    and "LatestHeight (srcChain w) = Inr sh" and "LatestHeight (dstChain w) = Inr dh"
    and "QueryChannel (srcChain w) sh = Inr srcChanLatest"
    and "QueryChannel (dstChain w) dh = Inr dstChanLatest"
    and "State (Channel srcChan) \<noteq> State (Channel srcChanLatest)
         \<or> State (Channel dstChan) \<noteq> State (Channel dstChanLatest)"
  shows "createChannelStep0 w ord = Return NewRelayMsgs
       \<and> \<not> Ready NewRelayMsgs \<and> Src NewRelayMsgs = [] \<and> Dst NewRelayMsgs = []
       \<and> createChannelStep1
           (w\<lparr>srcChain := (srcChain w)\<lparr>LatestHeight := lh\<rparr>,
              dstChain := (dstChain w)\<lparr>LatestHeight := lh'\<rparr>\<rparr>) ord
         = createChannelStep1 w ord"
proof -
  have "checkChannelFinality (srcChain w) (dstChain w) (Channel srcChan) (Channel dstChan) = Inr False"
    using assms(2-6) by (auto simp: checkChannelFinality_def QueryChannelPair_def)
  then have 1: "createChannelStep0 w ord = Return NewRelayMsgs"
    by (simp add: createChannelStep0_def su)
  have 2: "\<not> Ready NewRelayMsgs \<and> Src NewRelayMsgs = [] \<and> Dst NewRelayMsgs = []"
    by (simp add: Ready_def NewRelayMsgs_def)
  have 3: "createChannelStep1
           (w\<lparr>srcChain := (srcChain w)\<lparr>LatestHeight := lh\<rparr>,
              dstChain := (dstChain w)\<lparr>LatestHeight := lh'\<rparr>\<rparr>) ord
         = createChannelStep1 w ord"
    by (simp add: createChannelStep1_def setup_LatestHeight switch_LatestHeight)
  show ?thesis using 1 2 3 by simp
qed

lemma in_transition_facts:
  "createChannelStep_setup in_transition =
     Return (path0, path1, [7], [8, 9], chanAt UNINITIALIZED 9, chanAt UNINITIALIZED 9)"
  "LatestHeight (srcChain in_transition) = Inr 10"
  "LatestHeight (dstChain in_transition) = Inr 10"
  "QueryChannel (srcChain in_transition) 9 = Inr (chanAt UNINITIALIZED 9)"
  "QueryChannel (dstChain in_transition) 9 = Inr (chanAt UNINITIALIZED 9)"
  "QueryChannel (srcChain in_transition) 10 = Inr (chanAt INIT 10)"
  "QueryChannel (dstChain in_transition) 10 = Inr (chanAt UNINITIALIZED 10)"
  "NewSyncHeaders in_transition = Inr (\<lambda>_. 9)"
  "GetAddress (srcChain in_transition) = Inr ''alice''"
  by (simp_all add: in_transition_def setup_world_of) (simp_all add: world_of_def chain_of_def)

text \<open>
  An instance of C2 as amended: in the world caught in transition the first version
  returns the empty batch.
\<close>

theorem createChannelStep_finality_witness:
  "createChannelStep0 in_transition ORDERED = Return NewRelayMsgs \<and> \<not> Ready NewRelayMsgs"
  using createChannelStep_finality [OF in_transition_facts(1), of 10 10 "chanAt INIT 10"
          "chanAt UNINITIALIZED 10" ORDERED]
  by (simp add: in_transition_facts State_chanAt)

text \<open>
  Claim C2 as stated fails for the second version: in the world caught in transition the
  state of src at the pinned height 9 differs from its state at the latest height 10, and
  the evaluator returns a batch with the handshake message \<^verbatim>\<open>ChanOpenInit\<close>.
\<close>

theorem createChannelStep1_no_finality_counterexample:
  "QueryChannel (srcChain in_transition) 9 = Inr (chanAt UNINITIALIZED 9)
   \<and> LatestHeight (srcChain in_transition) = Inr 10
   \<and> QueryChannel (srcChain in_transition) 10 = Inr (chanAt INIT 10)
   \<and> State (Channel (chanAt UNINITIALIZED 9)) \<noteq> State (Channel (chanAt INIT 10))
   \<and> createChannelStep1 in_transition ORDERED =
       Return \<lparr>Src = [MsgChannelOpenInit path0 path1 ''alice''], Dst = [],
               Last = False, Succeeded = False\<rparr>"
  by (simp add: in_transition_facts State_chanAt createChannelStep1_def
        createChannelStep_switch_def mustGetAddress_def NewRelayMsgs_def ChanInit_def)

text \<open>
  Claim C10. Let the evaluation reach the dispatch with a pair of channel states that
  has an entry in the table. If \<^verbatim>\<open>GetAddress\<close> of the receiving chain fails, both
  versions of \<^verbatim>\<open>createChannelStep\<close> panic with that error; if it succeeds, they return a
  batch (the first version once the finality check has passed, in either case).
  \<^verbatim>\<open>mustGetAddress\<close> never returns an error value.
\<close>

theorem createChannelStep_address:
  assumes su: "createChannelStep_setup w =
            Return (srcPath, dstPath, srcHdrs, dstHdrs, srcChan, dstChan)"
    and tab: "dispatch_table (State (Channel srcChan)) (State (Channel dstChan)) = Some (sd, h, lst)"
  shows "(\<forall>err. GetAddress (receiver sd w) = Inl err \<longrightarrow>
            createChannelStep1 w ord = Panic (PanicErr err)
            \<and> (checkChannelFinality (srcChain w) (dstChain w) (Channel srcChan) (Channel dstChan)
                   = Inr True \<longrightarrow> createChannelStep0 w ord = Panic (PanicErr err)))
       \<and> (\<forall>addr. GetAddress (receiver sd w) = Inr addr \<longrightarrow>
            (\<exists>b. createChannelStep1 w ord = Return b)
            \<and> (checkChannelFinality (srcChain w) (dstChain w) (Channel srcChan) (Channel dstChan)
                   = Inr True \<longrightarrow> (\<exists>b. createChannelStep0 w ord = Return b)))
       \<and> (\<forall>chain err. mustGetAddress chain \<noteq> Error err)"
  by (simp add: createChannelStep0_def createChannelStep1_def su switch_Some[OF tab]
        mustGetAddress_def split: sum.splits)

lemma keyless_facts:
  "createChannelStep_setup (keyless s d) =
     Return (path0, path1, [7], [8, 9], chanAt s 10, chanAt d 10)"
  "GetAddress (srcChain (keyless s d)) = Inl ''key not found''"
  "checkChannelFinality (srcChain (keyless s d)) (dstChain (keyless s d))
     (Channel (chanAt s 10)) (Channel (chanAt d 10)) = Inr True"
  by (simp_all add: keyless_def setup_world_of)
     (simp_all add: world_of_def chain_of_def checkChannelFinality_def QueryChannelPair_def chanAt_def)

text \<open>
  Instances of C10: without a key on src the first step panics, with a key it returns.
\<close>

theorem createChannelStep_address_witness:
  "createChannelStep1 (keyless UNINITIALIZED UNINITIALIZED) ORDERED = Panic (PanicErr ''key not found'')
   \<and> createChannelStep0 (keyless UNINITIALIZED UNINITIALIZED) ORDERED = Panic (PanicErr ''key not found'')
   \<and> (\<exists>b. createChannelStep1 (settled UNINITIALIZED UNINITIALIZED True) ORDERED = Return b)
   \<and> (\<exists>b. createChannelStep0 (settled UNINITIALIZED UNINITIALIZED True) ORDERED = Return b)"
  using createChannelStep_address [OF keyless_facts(1), of UNINITIALIZED UNINITIALIZED ToSrc ChanOpenInit False ORDERED]
    createChannelStep_address [OF setup_settled, of UNINITIALIZED UNINITIALIZED ToSrc ChanOpenInit False True ORDERED]
  by (simp add: keyless_facts State_chanAt finality_settled GetAddress_settled)


lemma sent_batches_append: "sent_batches (es @ es') = sent_batches es @ sent_batches es'"
  by (induction es rule: sent_batches.induct) simp_all



lemma consecutive_failures_Slept:
  "consecutive_failures (es @ [Slept]) = consecutive_failures es"
  by (simp add: consecutive_failures_def sent_batches_append)


lemma switch_not_Error:
  "createChannelStep_switch src dst sp dp sh dh sc dc out \<noteq> Error err"
  by (auto simp: createChannelStep_switch_def mustGetAddress_def Let_def split: sum.splits)

lemma step0_Error:
  assumes "createChannelStep0 w ord = Error err"
  shows "\<not> channel_failed (Some (Returns (Some err)))"
proof (cases "createChannelStep_setup w")
  case (Return x)
  obtain sp dp sh dh sc dc where x: "x = (sp, dp, sh, dh, sc, dc)"
    by (cases x) auto
  from assms Return x have "\<exists>e. err = External e"
    by (auto simp: createChannelStep0_def switch_not_Error split: sum.splits if_splits)
  then show ?thesis by auto
next
  case (Error e)
  with assms have "e = err" by (simp add: createChannelStep0_def)
  with Error setup_Error[of w err] show ?thesis by auto
next
  case (Panic p)
  with assms show ?thesis by (simp add: createChannelStep0_def)
qed


lemma step0_Return_paths:
  assumes "createChannelStep0 w ord = Return b"
  shows "\<exists>sp dp. Path (srcChain w) = Some sp \<and> Path (dstChain w) = Some dp"
proof (cases "createChannelStep_setup w")
  case (Return x)
  obtain sp dp y where "x = (sp, dp, y)" by (cases x) auto
  with Return setup_Return_paths show ?thesis by blast
qed (use assms in \<open>simp_all add: createChannelStep0_def\<close>)









lemma step1_settled:
  "createChannelStep1 (settled s d ok) ord =
     (case dispatch_table s d of
        None \<Rightarrow> Panic (NotImplemented s d)
      | Some (sd, h, lst) \<Rightarrow>
          Return (expected_batch sd h lst path0 path1 [7] [8, 9] (chanAt s 10) (chanAt d 10)
                    (case sd of ToSrc \<Rightarrow> ''alice'' | ToDst \<Rightarrow> ''bob'')))"
proof (cases "dispatch_table s d")
  case None
  then show ?thesis
    by (simp add: createChannelStep1_def setup_settled switch_None State_chanAt)
next
  case (Some x)
  obtain sd h lst where "x = (sd, h, lst)" by (cases x) auto
  with Some have tab: "dispatch_table (State (Channel (chanAt s 10))) (State (Channel (chanAt d 10)))
      = Some (sd, h, lst)" by (simp add: State_chanAt)
  show ?thesis using Some \<open>x = (sd, h, lst)\<close>
    by (cases sd)
       (simp_all add: createChannelStep1_def setup_settled switch_Some[OF tab]
         GetAddress_settled)
qed

lemma chains_settled:
  "Path (srcChain (settled s d ok)) = Some path0"
  "Path (dstChain (settled s d ok)) = Some path1"
  "ChainID (srcChain (settled s d ok)) = ''ibc0''"
  "ChainID (dstChain (settled s d ok)) = ''ibc1''"
  "SendMsgs (srcChain (settled s d ok)) ms = ok"
  "SendMsgs (dstChain (settled s d ok)) ms = ok"
  by (simp_all add: settled_def world_of_def chain_of_def)




lemma run1_three_failures:
  "fst (CreateChannel1 3 (\<lambda>t. settled UNINITIALIZED UNINITIALIZED False) True 1) =
     Some (Returns (Some (ChannelFailed
       ''! Channel failed: [ibc0]chan{07-tendermint-0}port{channel-0} -> [ibc1]chan{07-tendermint-1}port{channel-1}'')))"
  by (simp add: CreateChannel1_def chains_settled step1_settled eval_nat_numeral Ready_def Send_def
        Success_def Let_def channelFailed1_def path0_def path1_def)













text \<open>
  The terminal error of the first version names, for src and for dst, the chain ID, the
  channel ID and the port ID.
\<close>

lemma channelFailed0_names:
  assumes "Path src = Some sp" and "Path dst = Some dp"
  shows "\<exists>msg. channelFailed0 src dst = Returns (Some (ChannelFailed msg))
           \<and> sublist (ChainID src) msg \<and> sublist (ChannelID sp) msg \<and> sublist (PortID sp) msg
           \<and> sublist (ChainID dst) msg \<and> sublist (ChannelID dp) msg \<and> sublist (PortID dp) msg"
proof -
  have s: "sublist xs (ps @ xs @ ss)" for xs ps ss :: string by simp
  let ?m = "''! Channel failed: ['' @ ChainID src @ '']chan{'' @ ChannelID sp
               @ ''}port{'' @ PortID sp @ ''} -> ['' @ ChainID dst @ '']chan{'' @ ChannelID dp
               @ ''}port{'' @ PortID dp @ ''}''"
  have "channelFailed0 src dst = Returns (Some (ChannelFailed ?m))"
    using assms by (simp add: channelFailed0_def)
  moreover have "sublist (ChainID src) ?m" by (rule s)
  moreover have "sublist (ChannelID sp) ?m"
    using s[of "ChannelID sp" "''! Channel failed: ['' @ ChainID src @ '']chan{''"] by simp
  moreover have "sublist (PortID sp) ?m"
    using s[of "PortID sp" "''! Channel failed: ['' @ ChainID src @ '']chan{'' @ ChannelID sp
               @ ''}port{''"] by simp
  moreover have "sublist (ChainID dst) ?m"
    using s[of "ChainID dst" "''! Channel failed: ['' @ ChainID src @ '']chan{'' @ ChannelID sp
               @ ''}port{'' @ PortID sp @ ''} -> [''"] by simp
  moreover have "sublist (ChannelID dp) ?m"
    using s[of "ChannelID dp" "''! Channel failed: ['' @ ChainID src @ '']chan{'' @ ChannelID sp
               @ ''}port{'' @ PortID sp @ ''} -> ['' @ ChainID dst @ '']chan{''"] by simp
  moreover have "sublist (PortID dp) ?m"
    using s[of "PortID dp" "''! Channel failed: ['' @ ChainID src @ '']chan{'' @ ChannelID sp
               @ ''}port{'' @ PortID sp @ ''} -> ['' @ ChainID dst @ '']chan{'' @ ChannelID dp
               @ ''}port{''"] by simp
  ultimately show ?thesis by blast
qed

text \<open>
  Claim C6 fails in the second version. After three failed submissions in a row, with
  the port ID \<open>transfer\<close> on both sides, the terminal error is filled with the client IDs
  and the channel IDs: the client ID stands where the format says \<open>chan\<close>, the channel ID
  where it says \<open>port\<close>, and the port ID does not occur in it.
\<close>

theorem CreateChannel1_error_omits_port:
  "fst (CreateChannel1 3 (\<lambda>t. settled UNINITIALIZED UNINITIALIZED False) True 1) =
     Some (Returns (Some (ChannelFailed
       ''! Channel failed: [ibc0]chan{07-tendermint-0}port{channel-0} -> [ibc1]chan{07-tendermint-1}port{channel-1}'')))
   \<and> PortID path0 = ''transfer'' \<and> PortID path1 = ''transfer''
   \<and> \<not> sublist ''transfer''
       ''! Channel failed: [ibc0]chan{07-tendermint-0}port{channel-0} -> [ibc1]chan{07-tendermint-1}port{channel-1}''"
proof -
  have "\<not> sublist ''transfer''
       ''! Channel failed: [ibc0]chan{07-tendermint-0}port{channel-0} -> [ibc1]chan{07-tendermint-1}port{channel-1}''"
    by (simp add: sublist_code)
  then show ?thesis
    by (simp add: run1_three_failures path0_def path1_def)
qed


text \<open>
  On every successful call of \<^verbatim>\<open>RunStrategy\<close> the channel of the returned closure is the
  one just made, which no goroutine can reach: neither listener was given it.
\<close>

lemma RunStrategy_no_receiver:
  assumes "known rt src dst strategy"
    and "RunStrategy rt newSyncHeaders src dst strategy = (Inr f, rt')"
  shows "f = SendOn (made rt)"
    and "goroutines rt' = goroutines rt @
           [\<lparr>listener = src, counterparty = dst, handler = strategy\<rparr>,
            \<lparr>listener = dst, counterparty = src, handler = strategy\<rparr>]"
    and "receivers f rt' = []"
proof -
  from assms(2) show f: "f = SendOn (made rt)"
    and g: "goroutines rt' = goroutines rt @
           [\<lparr>listener = src, counterparty = dst, handler = strategy\<rparr>,
            \<lparr>listener = dst, counterparty = src, handler = strategy\<rparr>]"
    by (auto simp: RunStrategy_def make_chan_def go_StartEventListener_def Let_def
          split: sum.splits option.splits)
  have "\<not> made rt < made rt" by simp
  with assms(1) show "receivers f rt' = []"
    by (auto simp: f g known_def reachable_def list_all_iff filter_empty_conv)
qed

text \<open>
  Claim C8 fails on the code. In the concrete call the closure that \<^verbatim>\<open>RunStrategy\<close>
  returns sends on channel 2, made by the call itself; the two listeners run with the
  chains and the strategy as their only arguments and reach the channels 0 and 1; no
  goroutine can receive what the closure sends.
\<close>

theorem RunStrategy_handle_reaches_no_listener:
  "RunStrategy runtime0 (Inr (\<lambda>_. 10)) chainI0 chainI1 naive =
     (Inr (SendOn 2),
      \<lparr>made = 3,
       goroutines = [\<lparr>listener = chainI0, counterparty = chainI1, handler = naive\<rparr>,
                     \<lparr>listener = chainI1, counterparty = chainI0, handler = naive\<rparr>]\<rparr>)
   \<and> reachable \<lparr>listener = chainI0, counterparty = chainI1, handler = naive\<rparr> = [0, 1]
   \<and> reachable \<lparr>listener = chainI1, counterparty = chainI0, handler = naive\<rparr> = [1, 0]
   \<and> receivers (SendOn 2)
       \<lparr>made = 3,
        goroutines = [\<lparr>listener = chainI0, counterparty = chainI1, handler = naive\<rparr>,
                      \<lparr>listener = chainI1, counterparty = chainI0, handler = naive\<rparr>]\<rparr> = []"
  by (simp add: RunStrategy_def make_chan_def go_StartEventListener_def runtime0_def naive_def
        reachable_def chainI0_def chainI1_def)


text \<open>
  Whenever the first version of the driver ends with the terminal error, the error names
  chain ID, channel ID and port ID of src and of dst, as they are at that tick.
\<close>

lemma loop0_terminal_error_names:
  "fst (CreateChannel0_loop k env ord t st) = Some (Returns (Some (ChannelFailed msg))) \<Longrightarrow>
     \<exists>t' sp dp. Path (srcChain (env t')) = Some sp \<and> Path (dstChain (env t')) = Some dp
       \<and> sublist (ChainID (srcChain (env t'))) msg \<and> sublist (ChannelID sp) msg
       \<and> sublist (PortID sp) msg
       \<and> sublist (ChainID (dstChain (env t'))) msg \<and> sublist (ChannelID dp) msg
       \<and> sublist (PortID dp) msg"
proof (induction k arbitrary: t st)
  case 0
  then show ?case by simp
next
  case (Suc k)
  show ?case
  proof (cases "createChannelStep0 (env t) ord")
    case (Panic p)
    with Suc.prems show ?thesis by simp
  next
    case (Error err)
    with Suc.prems step0_Error[OF Error] show ?thesis by simp
  next
    case (Return b)
    from step0_Return_paths[OF Return] obtain sp dp where
      p: "Path (srcChain (env t)) = Some sp" "Path (dstChain (env t)) = Some dp" by blast
    from channelFailed0_names[OF p] obtain m where
      m: "channelFailed0 (srcChain (env t)) (dstChain (env t)) = Returns (Some (ChannelFailed m))"
         "sublist (ChainID (srcChain (env t))) m" "sublist (ChannelID sp) m" "sublist (PortID sp) m"
         "sublist (ChainID (dstChain (env t))) m" "sublist (ChannelID dp) m" "sublist (PortID dp) m"
      by blast
    from Suc.prems Return consider
        (rec) st' where "fst (CreateChannel0_loop k env ord (Suc t) st')
                           = Some (Returns (Some (ChannelFailed msg)))"
      | (here) "channelFailed0 (srcChain (env t)) (dstChain (env t))
                  = Returns (Some (ChannelFailed msg))"
      by (auto simp: Let_def split: if_splits)
    then show ?thesis
    proof cases
      case rec
      from Suc.IH[OF this] show ?thesis .
    next
      case here
      with m have "m = msg" by simp
      with m p show ?thesis by blast
    qed
  qed
qed


end
